theory Spec2Isabelle
  imports Main "HOL-Library.Char_ord" "HOL-Library.List_Lexorder"
begin

section \<open>Portrait collection: a shallow embedding of \<open>scripts/collect_portraits.py\<close>\<close>

text \<open>
  The script resolves a list of faculty identifiers, lists the objects stored under each
  identifier's prefix in a bucket, picks the largest image object, downloads and decodes
  it, and writes two JPEG thumbnails.

  Python's \<open>str\<close> is modelled by \<open>string\<close>: one \<open>char\<close> per code point, for the
  code points 0 to 255 (Latin-1).  The order on strings is the lexicographic order of the
  code points, which is how Python compares \<open>str\<close> values.
\<close>

subsection \<open>String operations of the Python library used by the script\<close>

text \<open>\<open>str.isspace\<close> on one code point below 256: TAB, LF, VT, FF, CR, the four
  separators FS, GS, RS, US, the space, NEL (0x85) and the no-break space (0xA0).\<close>

definition isspace :: "char \<Rightarrow> bool" where
  "isspace c = (of_char c \<in> {9, 10, 11, 12, 13, 28, 29, 30, 31, 32, 133, 160 :: nat})"

text \<open>\<open>s.strip()\<close>: leading and trailing whitespace removed.\<close>

definition strip :: "string \<Rightarrow> string" where
  "strip s = rev (dropWhile isspace (rev (dropWhile isspace s)))"

text \<open>\<open>s.rstrip('/')\<close>: trailing slashes removed.\<close>

definition rstrip_slash :: "string \<Rightarrow> string" where
  "rstrip_slash s = rev (dropWhile (\<lambda>c. c = CHR ''/'') (rev s))"

text \<open>\<open>s.endswith('/')\<close>.\<close>

definition endswith_slash :: "string \<Rightarrow> bool" where
  "endswith_slash s = (case rev s of [] \<Rightarrow> False | c # _ \<Rightarrow> c = CHR ''/'')"

text \<open>\<open>str.lower\<close> on one code point below 256: the letters A to Z, and the
  upper-case letters 0xC0 to 0xDE other than the multiplication sign 0xD7, move up by 32.\<close>

definition lower_char :: "char \<Rightarrow> char" where
  "lower_char c =
     (let n = (of_char c :: nat) in
      if (65 \<le> n \<and> n \<le> 90) \<or> (192 \<le> n \<and> n \<le> 222 \<and> n \<noteq> 215)
      then char_of (n + 32) else c)"

definition lower :: "string \<Rightarrow> string" where
  "lower s = map lower_char s"

text \<open>\<open>str.splitlines\<close>: a line ends at LF, CR, CR LF, VT, FF, FS, GS, RS or NEL; the
  line terminators are dropped, and a terminator at the very end opens no further line.\<close>

definition is_linebreak :: "char \<Rightarrow> bool" where
  "is_linebreak c = (of_char c \<in> {10, 11, 12, 13, 28, 29, 30, 133 :: nat})"

fun splitlines_from :: "string \<Rightarrow> string \<Rightarrow> string list" where
  "splitlines_from cur [] = (if cur = [] then [] else [rev cur])"
| "splitlines_from cur [c] = (if is_linebreak c then [rev cur] else [rev (c # cur)])"
| "splitlines_from cur (c # d # cs) =
     (if c = CHR 0x0D \<and> d = CHR 0x0A then rev cur # splitlines_from [] cs
      else if is_linebreak c then rev cur # splitlines_from [] (d # cs)
      else splitlines_from (c # cur) (d # cs))"

definition splitlines :: "string \<Rightarrow> string list" where
  "splitlines s = splitlines_from [] s"

subsection \<open>Remote objects and the selection of the primary one\<close>

text \<open>A \<open>storage.Blob\<close> as far as the script reads it: its name and its size, which the
  client library leaves \<open>None\<close> when it is unknown.\<close>

record blob =
  blob_name :: string
  blob_size :: "int option"

text \<open>The key of the selection, \<open>lambda blob: blob.size or 0\<close>.\<close>

definition size_key :: "blob \<Rightarrow> int" where
  "size_key b = (case blob_size b of None \<Rightarrow> 0 | Some n \<Rightarrow> if n = 0 then 0 else n)"

text \<open>Python's \<open>max(iterable, key=...)\<close>: one pass that replaces the current best only
  by an element whose key is strictly greater.\<close>

fun max_by :: "('a \<Rightarrow> int) \<Rightarrow> 'a \<Rightarrow> 'a list \<Rightarrow> 'a" where
  "max_by key best [] = best"
| "max_by key best (x # xs) =
     (if key x > key best then max_by key x xs else max_by key best xs)"

definition choose_primary_blob :: "blob list \<Rightarrow> blob option" where
  "choose_primary_blob blobs =
     (case blobs of [] \<Rightarrow> None | b # bs \<Rightarrow> Some (max_by size_key b bs))"

subsection \<open>Names of objects: \<open>pathlib\<close> and the image filter\<close>

text \<open>\<open>s.split('/')\<close>, with the component being read kept reversed in \<open>cur\<close>.\<close>

fun split_slash :: "string \<Rightarrow> string \<Rightarrow> string list" where
  "split_slash cur [] = [rev cur]"
| "split_slash cur (c # cs) =
     (if c = CHR ''/'' then rev cur # split_slash [] cs else split_slash (c # cur) cs)"

text \<open>The components of \<open>Path(name)\<close> below its root: empty components and \<open>.\<close>
  components are dropped when the path is parsed.  \<open>Path(name).name\<close> is the last of
  them, or the empty string when there is none.\<close>

definition path_parts :: "string \<Rightarrow> string list" where
  "path_parts p = filter (\<lambda>x. x \<noteq> [] \<and> x \<noteq> ''.'') (split_slash [] p)"

definition path_name :: "string \<Rightarrow> string" where
  "path_name p = (case path_parts p of [] \<Rightarrow> [] | x # xs \<Rightarrow> last (x # xs))"

text \<open>\<open>name.rfind('.')\<close>: the index of the last dot, or \<open>-1\<close>.\<close>

definition rfind_dot :: "string \<Rightarrow> int" where
  "rfind_dot s =
     (if CHR ''.'' \<in> set s
      then int (length s) - 1 - int (length (takeWhile (\<lambda>c. c \<noteq> CHR ''.'') (rev s)))
      else - 1)"

text \<open>\<open>Path(name).suffix\<close> (as \<open>pathlib\<close> computes it up to Python 3.13): the part
  of the final component from its last dot on, when that dot is neither the first nor the
  last character of the component.\<close>

definition path_suffix :: "string \<Rightarrow> string" where
  "path_suffix p =
     (let name = path_name p; i = rfind_dot name
      in if 0 < i \<and> i < int (length name) - 1 then drop (nat i) name else [])"

definition IMAGE_EXTENSIONS :: "string set" where
  "IMAGE_EXTENSIONS = {''.jpg'', ''.jpeg'', ''.png'', ''.webp'', ''.gif''}"

definition is_image_blob :: "string \<Rightarrow> bool" where
  "is_image_blob name = (lower (path_suffix name) \<in> IMAGE_EXTENSIONS)"

text \<open>The condition of the list comprehension of \<open>process_identifier\<close>.\<close>

definition eligible :: "string \<Rightarrow> bool" where
  "eligible name = (\<not> endswith_slash name \<and> is_image_blob name)"

subsection \<open>Local paths, thumbnail specifications, images\<close>

text \<open>A local path is kept as it is built: a path given on the command line, extended
  by the operator \<open>/\<close> of \<open>pathlib\<close>.\<close>

datatype path = Path string | Slash path string

fun parent :: "path \<Rightarrow> path" where
  "parent (Slash p s) = p"
| "parent (Path s) = Path ''.''"

record thumbnail_spec =
  spec_name :: string
  spec_size :: "nat \<times> nat"
  spec_suffix :: string

definition destination :: "thumbnail_spec \<Rightarrow> path \<Rightarrow> path" where
  "destination spec base_path = Slash base_path (spec_name spec @ spec_suffix spec)"

definition THUMBNAILS :: "thumbnail_spec list" where
  "THUMBNAILS =
     [\<lparr>spec_name = ''cover'', spec_size = (512, 512), spec_suffix = ''.jpg''\<rparr>,
      \<lparr>spec_name = ''profile'', spec_size = (256, 256), spec_suffix = ''.jpg''\<rparr>]"

text \<open>An image as far as the script and its output depend on it: its size in pixels
  and its colour mode, which the imaging library names by a string.\<close>

record image =
  width :: nat
  height :: nat
  mode :: string

text \<open>An image object of the imaging library.  \<open>Image.open\<close> reads the header only:
  the object it returns knows its size and mode and keeps the bytes whose pixel data is
  not decoded yet.  The first operation that needs the pixels decodes them, and the
  object is loaded from then on.\<close>

record pil_image =
  picture :: image
  unloaded :: "string option"

subsection \<open>Errors, the environment, and the trace of effects\<close>

datatype error =
    SystemExit string
  | FileReadError
  | ClientError
  | TransportError
  | DecodeError
  | CannotWriteMode string

text \<open>What the script reads from outside, and the library functions whose results it
  passes on: the text of a local file, the construction of the storage client, the
  listing under a prefix of a bucket, the bytes of an object, the two stages of the
  decoder of the imaging library, and the size that \<open>Image.thumbnail\<close> gives an image
  of a given size for a given bounding box.  Each call that can raise returns an
  \<open>error\<close>.  \<open>image_open\<close> is \<open>Image.open\<close> on the bytes: the size and mode read from
  the header, or the error for bytes that no decoder identifies.  \<open>image_load\<close> is the
  decoding of the pixel data of the bytes: the error it raises (a truncated or broken
  stream), or \<open>None\<close>.\<close>

record env =
  read_text :: "path \<Rightarrow> error + string"
  client_failure :: "error option"
  list_blobs :: "string \<Rightarrow> string \<Rightarrow> error + blob list"
  download_as_bytes :: "blob \<Rightarrow> error + string"
  image_open :: "string \<Rightarrow> error + image"
  image_load :: "string \<Rightarrow> error option"
  thumbnail_size :: "nat \<times> nat \<Rightarrow> nat \<times> nat \<Rightarrow> nat \<times> nat"

datatype message =
    NoPortraitImagesFound string
  | CouldNotDetermine string
  | Downloading string "int option" string
  | Saved path

datatype event =
    ClientCreated
  | ListBlobs string string
  | Download blob
  | Mkdir path
  | WriteJpeg path image
  | Warning message
  | Info message

text \<open>The parsed command line (\<open>argparse.Namespace\<close>).\<close>

record args =
  bucket :: string
  identifiers :: "string list"
  from_file :: "path option"
  output_arg :: path
  verbose :: bool

subsection \<open>The identifier source\<close>

definition file_identifiers :: "env \<Rightarrow> args \<Rightarrow> error + string list" where
  "file_identifiers e a =
     (case from_file a of
        None \<Rightarrow> Inr []
      | Some p \<Rightarrow>
          (case read_text e p of
             Inl err \<Rightarrow> Inl err
           | Inr txt \<Rightarrow> Inr [strip line. line \<leftarrow> splitlines txt, strip line \<noteq> []]))"

definition build_identifier_list :: "env \<Rightarrow> args \<Rightarrow> error + string list" where
  "build_identifier_list e a =
     (case file_identifiers e a of
        Inl err \<Rightarrow> Inl err
      | Inr from_lines \<Rightarrow>
          (let ids = from_lines @
                 (if identifiers a \<noteq> [] then [strip i. i \<leftarrow> identifiers a, strip i \<noteq> []]
                  else []);
               deduped = sort (remdups ids)
           in if deduped = []
              then Inl (SystemExit ''No identifiers provided. Use --id or --from-file.'')
              else Inr deduped))"

text \<open>The identifier source in the words of its contract: both sources taken together,
  every entry stripped, the empty ones dropped, as a set; the resolved list is that set
  in ascending order.\<close>

definition spec_identifier_set :: "string list \<Rightarrow> string list \<Rightarrow> string set" where
  "spec_identifier_set ids lines = {s \<in> strip ` (set ids \<union> set lines). s \<noteq> []}"

definition spec_identifier_list :: "string list \<Rightarrow> string list \<Rightarrow> string list" where
  "spec_identifier_list ids lines = sorted_list_of_set (spec_identifier_set ids lines)"

text \<open>The lines of the file named by \<open>--from-file\<close>, none when the option is
  absent: what \<open>read_text(...).splitlines()\<close> yields, or the error of the read.\<close>

definition file_lines :: "env \<Rightarrow> args \<Rightarrow> error + string list" where
  "file_lines e a =
     (case from_file a of
        None \<Rightarrow> Inr []
      | Some p \<Rightarrow> (case read_text e p of Inl err \<Rightarrow> Inl err | Inr txt \<Rightarrow> Inr (splitlines txt)))"

subsection \<open>The image pipeline\<close>

text \<open>\<open>image.load()\<close>: a loaded object is left as it is; otherwise the pixel data
  is decoded, which raises or leaves the object loaded.\<close>

definition pil_load :: "env \<Rightarrow> pil_image \<Rightarrow> error + pil_image" where
  "pil_load e im =
     (case unloaded im of
        None \<Rightarrow> Inr im
      | Some data \<Rightarrow>
          (case image_load e data of
             Some err \<Rightarrow> Inl err
           | None \<Rightarrow> Inr (im\<lparr>unloaded := None\<rparr>)))"

text \<open>\<open>download_image\<close>: the bytes of the blob are downloaded and opened.  An image
  whose mode is neither RGB nor RGBA is converted: \<open>convert\<close> loads the pixel data and
  returns a new, loaded image of mode RGB.  An image of mode RGB or RGBA is returned as
  \<open>Image.open\<close> gave it, its pixel data not decoded yet.\<close>

definition download_image :: "env \<Rightarrow> blob \<Rightarrow> error + pil_image" where
  "download_image e b =
     (case download_as_bytes e b of
        Inl err \<Rightarrow> Inl err
      | Inr data \<Rightarrow>
          (case image_open e data of
             Inl err \<Rightarrow> Inl err
           | Inr hdr \<Rightarrow>
               (let im = \<lparr>picture = hdr, unloaded = Some data\<rparr>
                in if mode (picture im) \<notin> {''RGB'', ''RGBA''}
                   then (case pil_load e im of
                           Inl err \<Rightarrow> Inl err
                         | Inr loaded \<Rightarrow>
                             Inr \<lparr>picture = (picture loaded)\<lparr>mode := ''RGB''\<rparr>,
                                  unloaded = None\<rparr>)
                   else Inr im)))"

text \<open>The modes the JPEG writer of the imaging library stores (the keys of the table
  \<open>RAWMODE\<close> of Pillow's \<open>JpegImagePlugin\<close>); for an image of any other mode,
  \<open>save(..., format="JPEG")\<close> raises \<open>OSError: cannot write mode ... as JPEG\<close>.\<close>

definition JPEG_RAWMODE :: "string set" where
  "JPEG_RAWMODE = {''1'', ''L'', ''RGB'', ''RGBX'', ''CMYK'', ''YCbCr''}"

text \<open>\<open>save_thumbnail\<close>: the directory of the destination is made; \<open>image.copy()\<close>
  loads the image, which raises if the pixel data does not decode and leaves the
  caller's image loaded otherwise; the copy is resized in place by \<open>thumbnail\<close>, which
  keeps the mode, and saved as JPEG.  The result on the right is the caller's image as
  the call leaves it.  The operations on the local file system are taken to succeed.\<close>

definition save_thumbnail ::
  "env \<Rightarrow> pil_image \<Rightarrow> path \<Rightarrow> nat \<times> nat \<Rightarrow> event list
     \<Rightarrow> (error + pil_image) \<times> event list" where
  "save_thumbnail e im dest sz tr =
     (let tr1 = tr @ [Mkdir (parent dest)]
      in case pil_load e im of
           Inl err \<Rightarrow> (Inl err, tr1)
         | Inr loaded \<Rightarrow>
             (let wh = thumbnail_size e (width (picture loaded), height (picture loaded)) sz;
                  thumbnail = (picture loaded)\<lparr>width := fst wh, height := snd wh\<rparr>
              in if mode thumbnail \<in> JPEG_RAWMODE
                 then (Inr loaded, tr1 @ [WriteJpeg dest thumbnail])
                 else (Inl (CannotWriteMode (mode thumbnail)), tr1)))"

text \<open>The loop \<open>for spec in THUMBNAILS\<close>, each turn on the image as the turn before
  left it; an error raised by one save ends it.\<close>

fun save_thumbnails ::
  "env \<Rightarrow> pil_image \<Rightarrow> path \<Rightarrow> thumbnail_spec list \<Rightarrow> event list
     \<Rightarrow> (error + unit) \<times> event list" where
  "save_thumbnails e im person_dir [] tr = (Inr (), tr)"
| "save_thumbnails e im person_dir (spec # specs) tr =
     (case save_thumbnail e im (destination spec person_dir) (spec_size spec) tr of
        (Inl err, tr') \<Rightarrow> (Inl err, tr')
      | (Inr im', tr') \<Rightarrow>
          save_thumbnails e im' person_dir specs
            (tr' @ [Info (Saved (destination spec person_dir))]))"

subsection \<open>The orchestrator\<close>

definition process_identifier ::
  "env \<Rightarrow> string \<Rightarrow> string \<Rightarrow> path \<Rightarrow> event list \<Rightarrow> (error + unit) \<times> event list" where
  "process_identifier e bucket_name identifier output_dir tr =
     (let prefix = rstrip_slash identifier @ ''/'';
          tr1 = tr @ [ListBlobs bucket_name prefix]
      in case list_blobs e bucket_name prefix of
           Inl err \<Rightarrow> (Inl err, tr1)
         | Inr listed \<Rightarrow>
             (let blobs = filter (\<lambda>b. eligible (blob_name b)) listed
              in if blobs = []
                 then (Inr (), tr1 @ [Warning (NoPortraitImagesFound identifier)])
                 else
                   (case choose_primary_blob blobs of
                      None \<Rightarrow> (Inr (), tr1 @ [Warning (CouldNotDetermine identifier)])
                    | Some b \<Rightarrow>
                        (let tr2 = tr1 @ [Info (Downloading (blob_name b) (blob_size b) identifier),
                                          Download b]
                         in case download_image e b of
                              Inl err \<Rightarrow> (Inl err, tr2)
                            | Inr img \<Rightarrow>
                                save_thumbnails e img (Slash output_dir identifier)
                                  THUMBNAILS tr2))))"

text \<open>The loop \<open>for identifier in identifiers\<close> of \<open>main\<close>: no exception is caught, so
  the first error ends the loop.\<close>

fun process_all ::
  "env \<Rightarrow> string \<Rightarrow> string list \<Rightarrow> path \<Rightarrow> event list \<Rightarrow> (error + unit) \<times> event list" where
  "process_all e bucket_name [] output_dir tr = (Inr (), tr)"
| "process_all e bucket_name (identifier # rest) output_dir tr =
     (case process_identifier e bucket_name identifier output_dir tr of
        (Inl err, tr') \<Rightarrow> (Inl err, tr')
      | (Inr u, tr') \<Rightarrow> process_all e bucket_name rest output_dir tr')"

text \<open>\<open>main\<close>, from the parsed command line on: \<open>parse_args\<close> has produced \<open>args\<close>
  and \<open>initialize_logging\<close> has set the level, at which warnings and informational
  messages are both emitted.  The trace starts when the storage client is constructed.\<close>

definition main :: "env \<Rightarrow> args \<Rightarrow> (error + int) \<times> event list" where
  "main e a =
     (case build_identifier_list e a of
        Inl err \<Rightarrow> (Inl err, [])
      | Inr ids \<Rightarrow>
          (case client_failure e of
             Some err \<Rightarrow> (Inl err, [])
           | None \<Rightarrow>
               (case process_all e (bucket a) ids (output_arg a) [ClientCreated] of
                  (Inl err, tr) \<Rightarrow> (Inl err, tr)
                | (Inr u, tr) \<Rightarrow> (Inr 0, tr))))"

text \<open>The status of the process, \<open>sys.exit(main(sys.argv[1:]))\<close>: the value returned by
  \<open>main\<close>; 1 for \<open>SystemExit\<close> raised with a message and for any uncaught exception.\<close>

definition exit_status :: "error + int \<Rightarrow> int" where
  "exit_status r = (case r of Inl err \<Rightarrow> 1 | Inr n \<Rightarrow> n)"

subsection \<open>Example inputs\<close>

text \<open>The size \<open>Image.thumbnail\<close> gives an image of positive width \<open>w\<close> and height
  \<open>h\<close> for the box \<open>(x, y)\<close> (Pillow 7 and later), in exact arithmetic where the
  library computes the aspect ratio \<open>w / h\<close> in floating point.  An image that fits the
  box keeps its size.  Otherwise the side that the box binds takes the size of the box,
  and the other side is the quotient \<open>y * w / h\<close> (or \<open>x * h / w\<close>) rounded down or up,
  whichever gives the aspect ratio nearer to \<open>w / h\<close>, down when both are as near, and
  at least 1.\<close>

definition shrink_to_fit :: "nat \<times> nat \<Rightarrow> nat \<times> nat \<Rightarrow> nat \<times> nat" where
  "shrink_to_fit wh box =
     (let w = fst wh; h = snd wh; x = fst box; y = snd box
      in if x \<ge> w \<and> y \<ge> h then (w, h)
         else if x * h \<ge> w * y
         then (let lo = (y * w) div h;
                   hi = (if (y * w) mod h = 0 then lo else lo + 1);
                   n = (if y * w - lo * h \<le> hi * h - y * w then lo else hi)
               in (max n 1, y))
         else (let lo = (x * h) div w;
                   hi = (if (x * h) mod w = 0 then lo else lo + 1);
                   n = (if lo = 0 \<or> (x * h - lo * w) * hi \<le> (hi * w - x * h) * lo
                        then lo else hi)
               in (x, max n 1)))"

definition example_listing :: "blob list" where
  "example_listing =
     [\<lparr>blob_name = ''jane-doe/'', blob_size = Some 0\<rparr>,
      \<lparr>blob_name = ''jane-doe/notes.txt'', blob_size = Some 90000\<rparr>,
      \<lparr>blob_name = ''jane-doe/small.png'', blob_size = Some 2048\<rparr>,
      \<lparr>blob_name = ''jane-doe/Portrait.PNG'', blob_size = Some 70000\<rparr>]"

text \<open>An environment with one file of identifiers and objects under the prefix
  \<open>jane-doe/\<close> only; what \<open>Image.open\<close> gives for a downloaded object is the
  parameter, and the pixel data of every object decodes.\<close>

definition example_env :: "error + image \<Rightarrow> env" where
  "example_env decoded =
     \<lparr>read_text = (\<lambda>p. Inr ''john-smith\<newline>  jane-doe \<newline>\<newline>''),
      client_failure = None,
      list_blobs = (\<lambda>b prefix. Inr (if prefix = ''jane-doe/'' then example_listing else [])),
      download_as_bytes = (\<lambda>b. Inr ''bytes''),
      image_open = (\<lambda>d. decoded),
      image_load = (\<lambda>d. None),
      thumbnail_size = shrink_to_fit\<rparr>"

text \<open>The same environment with objects whose header is read and whose pixel data is
  truncated.\<close>

definition example_env_truncated :: "image \<Rightarrow> env" where
  "example_env_truncated hdr = (example_env (Inr hdr))\<lparr>image_load := (\<lambda>d. Some DecodeError)\<rparr>"

definition example_args :: "string list \<Rightarrow> path option \<Rightarrow> args" where
  "example_args ids file =
     \<lparr>bucket = ''afaculty'', identifiers = ids, from_file = file,
      output_arg = Path ''portraits'', verbose = False\<rparr>"

section \<open>Properties\<close>

subsection \<open>The blob selector\<close>

text \<open>The selection splits the listing at the chosen element: every earlier element
  has a strictly smaller key, no later element has a greater one.\<close>

lemma max_by_split:
  "\<exists>ys zs. best # xs = ys @ max_by key best xs # zs
      \<and> (\<forall>y\<in>set ys. key y < key (max_by key best xs))
      \<and> (\<forall>z\<in>set zs. key z \<le> key (max_by key best xs))"
proof (induction xs arbitrary: best)
  case Nil
  show ?case by (rule exI[of _ "[]"]) simp
next
  case (Cons x xs)
  show ?case
  proof (cases "key x > key best")
    case True
    define m where "m = max_by key x xs"
    have step: "max_by key best (x # xs) = m" using True by (simp add: m_def)
    from Cons.IH[of x] obtain ys zs where
      eq: "x # xs = ys @ m # zs"
      and lt: "\<forall>y\<in>set ys. key y < key m"
      and le: "\<forall>z\<in>set zs. key z \<le> key m" unfolding m_def by blast
    have "x \<in> set (ys @ [m])" using eq by (cases ys) auto
    then have "key x \<le> key m" using lt by (auto simp: less_imp_le)
    with True have b: "key best < key m" by simp
    have e: "best # x # xs = (best # ys) @ m # zs" using eq by simp
    have l: "\<forall>y\<in>set (best # ys). key y < key m" using b lt by simp
    show ?thesis unfolding step
      by (rule exI[of _ "best # ys"], rule exI[of _ zs]) (use e l le in blast)
  next
    case False
    define m where "m = max_by key best xs"
    have step: "max_by key best (x # xs) = m" using False by (simp add: m_def)
    from Cons.IH[of best] obtain ys zs where
      eq: "best # xs = ys @ m # zs"
      and lt: "\<forall>y\<in>set ys. key y < key m"
      and le: "\<forall>z\<in>set zs. key z \<le> key m" unfolding m_def by blast
    show ?thesis
    proof (cases ys)
      case Nil
      with eq have mb: "m = best" and z: "zs = xs" by simp_all
      have e: "best # x # xs = [] @ m # (x # xs)" using mb by simp
      have l: "\<forall>z\<in>set (x # xs). key z \<le> key m" using False le mb z by auto
      show ?thesis unfolding step
        by (rule exI[of _ "[]"], rule exI[of _ "x # xs"]) (use e l in simp)
    next
      case (Cons y ys')
      with eq have y: "y = best" and xs: "xs = ys' @ m # zs" by simp_all
      have bl: "key best < key m" using lt Cons y by simp
      have e: "best # x # xs = (best # x # ys') @ m # zs" using xs by simp
      have l: "\<forall>y\<in>set (best # x # ys'). key y < key m"
        using lt Cons y bl False by auto
      show ?thesis unfolding step
        by (rule exI[of _ "best # x # ys'"], rule exI[of _ zs]) (use e l le in blast)
    qed
  qed
qed

lemma choose_primary_blob_split:
  assumes "blobs \<noteq> []"
  shows "\<exists>ys b zs. choose_primary_blob blobs = Some b \<and> blobs = ys @ b # zs
      \<and> (\<forall>y\<in>set ys. size_key y < size_key b)
      \<and> (\<forall>z\<in>set zs. size_key z \<le> size_key b)"
proof -
  from assms obtain c cs where bl: "blobs = c # cs" by (cases blobs) auto
  from max_by_split[of c cs size_key] obtain ys zs where
    e: "c # cs = ys @ max_by size_key c cs # zs"
    and lt: "\<forall>y\<in>set ys. size_key y < size_key (max_by size_key c cs)"
    and le: "\<forall>z\<in>set zs. size_key z \<le> size_key (max_by size_key c cs)" by blast
  have c: "choose_primary_blob blobs = Some (max_by size_key c cs)"
    by (simp add: bl choose_primary_blob_def)
  show ?thesis
    by (rule exI[of _ ys], rule exI[of _ "max_by size_key c cs"], rule exI[of _ zs])
       (use c e lt le bl in simp)
qed

lemma size_key_or_zero: "size_key b = (case blob_size b of None \<Rightarrow> 0 | Some n \<Rightarrow> n)"
  by (simp add: size_key_def split: option.splits)

text \<open>
  Claim C2.  For every non-empty list of blobs the selector returns a blob of the list
  whose size is maximal, an unknown size counting as zero.  For the list of sizes 10, 50, 5 that
  is the blob of size 50.
\<close>

theorem choose_primary_blob_maximal:
  assumes "blobs \<noteq> []"
  shows "\<exists>b. choose_primary_blob blobs = Some b \<and> b \<in> set blobs
           \<and> (\<forall>c\<in>set blobs. (case blob_size c of None \<Rightarrow> 0 | Some n \<Rightarrow> n)
                                \<le> (case blob_size b of None \<Rightarrow> 0 | Some n \<Rightarrow> n))"
proof -
  from choose_primary_blob_split[OF assms] obtain ys b zs where
    c: "choose_primary_blob blobs = Some b" and e: "blobs = ys @ b # zs"
    and lt: "\<forall>y\<in>set ys. size_key y < size_key b"
    and le: "\<forall>z\<in>set zs. size_key z \<le> size_key b" by blast
  have "\<forall>c\<in>set blobs. size_key c \<le> size_key b"
    using e lt le by (auto simp: less_imp_le)
  then have "\<forall>c\<in>set blobs. (case blob_size c of None \<Rightarrow> 0 | Some n \<Rightarrow> n)
                                \<le> (case blob_size b of None \<Rightarrow> 0 | Some n \<Rightarrow> n)"
    by (simp add: size_key_or_zero)
  with c e show ?thesis by auto
qed

theorem choose_primary_blob_maximal_witness:
  "[\<lparr>blob_name = ''jane-doe/a.png'', blob_size = Some 10\<rparr>,
    \<lparr>blob_name = ''jane-doe/b.png'', blob_size = Some 50\<rparr>,
    \<lparr>blob_name = ''jane-doe/c.png'', blob_size = Some 5\<rparr>] \<noteq> []
   \<and> choose_primary_blob
       [\<lparr>blob_name = ''jane-doe/a.png'', blob_size = Some 10\<rparr>,
        \<lparr>blob_name = ''jane-doe/b.png'', blob_size = Some 50\<rparr>,
        \<lparr>blob_name = ''jane-doe/c.png'', blob_size = Some 5\<rparr>]
      = Some \<lparr>blob_name = ''jane-doe/b.png'', blob_size = Some 50\<rparr>"
  using choose_primary_blob_maximal
    [of "[\<lparr>blob_name = ''jane-doe/a.png'', blob_size = Some 10\<rparr>,
          \<lparr>blob_name = ''jane-doe/b.png'', blob_size = Some 50\<rparr>,
          \<lparr>blob_name = ''jane-doe/c.png'', blob_size = Some 5\<rparr>]"]
  by (simp add: choose_primary_blob_def size_key_def)

text \<open>
  Claim C10.  For every non-empty list of blobs the selector returns the element at the
  first position that holds a maximal size (an unknown size counting as zero): no
  element of the list is larger, and every element before that position is strictly
  smaller.  So among several blobs tied at the maximal size the first in listing order is
  returned.
\<close>

theorem choose_primary_blob_first_maximal:
  assumes "blobs \<noteq> []"
  shows "\<exists>i<length blobs. choose_primary_blob blobs = Some (blobs ! i)
           \<and> (\<forall>j<length blobs. size_key (blobs ! j) \<le> size_key (blobs ! i))
           \<and> (\<forall>j<i. size_key (blobs ! j) < size_key (blobs ! i))"
proof -
  from choose_primary_blob_split[OF assms] obtain ys b zs where
    c: "choose_primary_blob blobs = Some b" and e: "blobs = ys @ b # zs"
    and lt: "\<forall>y\<in>set ys. size_key y < size_key b"
    and le: "\<forall>z\<in>set zs. size_key z \<le> size_key b" by blast
  have i: "length ys < length blobs" and bi: "blobs ! length ys = b" using e by simp_all
  have all: "\<forall>c\<in>set blobs. size_key c \<le> size_key b"
    using e lt le by (auto simp: less_imp_le)
  have before: "\<forall>j<length ys. size_key (blobs ! j) < size_key b"
    using e lt by (simp add: nth_append)
  show ?thesis
    by (rule exI[of _ "length ys"]) (use i bi c all before in auto)
qed

theorem choose_primary_blob_first_maximal_witness:
  "[\<lparr>blob_name = ''jane-doe/a.png'', blob_size = None\<rparr>,
    \<lparr>blob_name = ''jane-doe/b.png'', blob_size = Some 50\<rparr>,
    \<lparr>blob_name = ''jane-doe/c.png'', blob_size = Some 7\<rparr>,
    \<lparr>blob_name = ''jane-doe/d.png'', blob_size = Some 50\<rparr>] \<noteq> []
   \<and> choose_primary_blob
       [\<lparr>blob_name = ''jane-doe/a.png'', blob_size = None\<rparr>,
        \<lparr>blob_name = ''jane-doe/b.png'', blob_size = Some 50\<rparr>,
        \<lparr>blob_name = ''jane-doe/c.png'', blob_size = Some 7\<rparr>,
        \<lparr>blob_name = ''jane-doe/d.png'', blob_size = Some 50\<rparr>]
      = Some \<lparr>blob_name = ''jane-doe/b.png'', blob_size = Some 50\<rparr>"
  using choose_primary_blob_first_maximal
    [of "[\<lparr>blob_name = ''jane-doe/a.png'', blob_size = None\<rparr>,
          \<lparr>blob_name = ''jane-doe/b.png'', blob_size = Some 50\<rparr>,
          \<lparr>blob_name = ''jane-doe/c.png'', blob_size = Some 7\<rparr>,
          \<lparr>blob_name = ''jane-doe/d.png'', blob_size = Some 50\<rparr>]"]
  by (simp add: choose_primary_blob_def size_key_def)

subsection \<open>The image filter\<close>

lemma split_slash_no_slash:
  "CHR ''/'' \<notin> set s \<Longrightarrow> split_slash cur s = [rev cur @ s]"
  by (induction s arbitrary: cur) auto

lemma split_slash_last_component:
  "CHR ''/'' \<notin> set s \<Longrightarrow> \<exists>ys. split_slash cur (xs @ CHR ''/'' # s) = ys @ [s]"
proof (induction xs arbitrary: cur)
  case Nil
  then show ?case by (simp add: split_slash_no_slash)
next
  case (Cons x xs)
  show ?case
  proof (cases "x = CHR ''/''")
    case True
    from Cons.IH[OF Cons.prems, of "[]"] obtain ys where
      "split_slash [] (xs @ CHR ''/'' # s) = ys @ [s]" by blast
    then have "split_slash cur ((x # xs) @ CHR ''/'' # s) = (rev cur # ys) @ [s]"
      using True by simp
    then show ?thesis by blast
  next
    case False
    from Cons.IH[OF Cons.prems, of "x # cur"] obtain ys where
      "split_slash (x # cur) (xs @ CHR ''/'' # s) = ys @ [s]" by blast
    then have "split_slash cur ((x # xs) @ CHR ''/'' # s) = ys @ [s]"
      using False by simp
    then show ?thesis by blast
  qed
qed

lemma path_name_last:
  "path_name p = (if path_parts p = [] then [] else last (path_parts p))"
  by (cases "path_parts p") (simp_all add: path_name_def)

lemma path_name_final_component:
  assumes d: "dir = [] \<or> last dir = CHR ''/''"
    and s: "CHR ''/'' \<notin> set s" "s \<noteq> []" "s \<noteq> ''.''"
  shows "path_name (dir @ s) = s"
proof -
  have "\<exists>ys. split_slash [] (dir @ s) = ys @ [s]"
  proof (cases "dir = []")
    case True
    then show ?thesis using s by (simp add: split_slash_no_slash)
  next
    case False
    with d have "dir = butlast dir @ [CHR ''/'']" by (metis append_butlast_last_id)
    then have eq: "dir @ s = butlast dir @ CHR ''/'' # s"
      by (metis append_Cons append_Nil append_assoc)
    show ?thesis by (subst eq) (rule split_slash_last_component[OF s(1)])
  qed
  then obtain ys where "split_slash [] (dir @ s) = ys @ [s]" by blast
  then have "path_parts (dir @ s) = filter (\<lambda>x. x \<noteq> [] \<and> x \<noteq> ''.'') ys @ [s]"
    using s by (simp add: path_parts_def)
  then show ?thesis by (simp add: path_name_last)
qed

lemma rfind_dot_last:
  "CHR ''.'' \<notin> set ext \<Longrightarrow> rfind_dot (stem @ CHR ''.'' # ext) = int (length stem)"
proof -
  assume a: "CHR ''.'' \<notin> set ext"
  have "takeWhile (\<lambda>c. c \<noteq> CHR ''.'') (rev ext @ CHR ''.'' # rev stem) = rev ext"
    using a by (simp add: takeWhile_append)
  then show ?thesis by (simp add: rfind_dot_def)
qed

lemma path_suffix_final_extension:
  assumes "dir = [] \<or> last dir = CHR ''/''"
    and "stem \<noteq> []" "CHR ''/'' \<notin> set stem"
    and "ext \<noteq> []" "CHR ''/'' \<notin> set ext" "CHR ''.'' \<notin> set ext"
  shows "path_suffix (dir @ stem @ CHR ''.'' # ext) = CHR ''.'' # ext"
proof -
  have n: "path_name (dir @ (stem @ CHR ''.'' # ext)) = stem @ CHR ''.'' # ext"
    using assms by (intro path_name_final_component) (auto simp: append_eq_Cons_conv)
  have r: "rfind_dot (stem @ CHR ''.'' # ext) = int (length stem)"
    using assms by (simp add: rfind_dot_last)
  show ?thesis using assms n r by (simp add: path_suffix_def Let_def)
qed

lemma endswith_slash_last:
  "endswith_slash s = (s \<noteq> [] \<and> last s = CHR ''/'')"
  by (cases s rule: rev_cases) (simp_all add: endswith_slash_def)

lemma lower_dot_ext:
  "(lower (CHR ''.'' # ext) \<in> IMAGE_EXTENSIONS)
     = (lower ext \<in> {''jpg'', ''jpeg'', ''png'', ''webp'', ''gif''})"
proof -
  have "lower_char CHR ''.'' = CHR ''.''" by (simp add: lower_char_def)
  then show ?thesis by (auto simp: lower_def IMAGE_EXTENSIONS_def)
qed

text \<open>
  Claim C4.  A blob name is excluded from the candidates exactly when it ends in the
  separator \<open>/\<close> or the lower-cased suffix of its path is outside the allow-list
  \<open>.jpg\<close>, \<open>.jpeg\<close>, \<open>.png\<close>, \<open>.webp\<close>, \<open>.gif\<close>.  Where the name
  ends in a component \<open>stem.ext\<close> (a non-empty stem, a non-empty extension without
  dot), that suffix is \<open>.ext\<close>, and the name is a candidate exactly when \<open>ext\<close>
  in lower case is one of the five extensions: the match ignores the case of the
  extension.
\<close>

theorem eligible_iff_image_extension:
  "(\<not> eligible name \<longleftrightarrow>
      endswith_slash name \<or> lower (path_suffix name) \<notin> IMAGE_EXTENSIONS)
   \<and> ((dir = [] \<or> last dir = CHR ''/'') \<and> stem \<noteq> [] \<and> CHR ''/'' \<notin> set stem
        \<and> ext \<noteq> [] \<and> CHR ''/'' \<notin> set ext \<and> CHR ''.'' \<notin> set ext
      \<longrightarrow> path_suffix (dir @ stem @ ''.'' @ ext) = ''.'' @ ext
          \<and> (eligible (dir @ stem @ ''.'' @ ext)
               \<longleftrightarrow> lower ext \<in> {''jpg'', ''jpeg'', ''png'', ''webp'', ''gif''}))"
proof (intro conjI impI)
  show "\<not> eligible name \<longleftrightarrow>
      endswith_slash name \<or> lower (path_suffix name) \<notin> IMAGE_EXTENSIONS"
    by (simp add: eligible_def is_image_blob_def)
next
  assume a: "(dir = [] \<or> last dir = CHR ''/'') \<and> stem \<noteq> [] \<and> CHR ''/'' \<notin> set stem
        \<and> ext \<noteq> [] \<and> CHR ''/'' \<notin> set ext \<and> CHR ''.'' \<notin> set ext"
  then have sfx: "path_suffix (dir @ stem @ CHR ''.'' # ext) = CHR ''.'' # ext"
    by (intro path_suffix_final_extension) simp_all
  then show "path_suffix (dir @ stem @ ''.'' @ ext) = ''.'' @ ext" by simp
  have "last (dir @ stem @ CHR ''.'' # ext) = last ext" using a by simp
  moreover have "last ext \<noteq> CHR ''/''" using a last_in_set by metis
  ultimately have "\<not> endswith_slash (dir @ stem @ CHR ''.'' # ext)"
    by (simp add: endswith_slash_last)
  then have "eligible (dir @ stem @ CHR ''.'' # ext)
               \<longleftrightarrow> lower ext \<in> {''jpg'', ''jpeg'', ''png'', ''webp'', ''gif''}"
    using sfx by (simp add: eligible_def is_image_blob_def lower_dot_ext)
  then show "eligible (dir @ stem @ ''.'' @ ext)
               \<longleftrightarrow> lower ext \<in> {''jpg'', ''jpeg'', ''png'', ''webp'', ''gif''}" by simp
qed

lemma lower_JPG: "lower ''JpG'' = ''jpg''"
  by code_simp

theorem eligible_iff_image_extension_witness:
  "path_suffix ''jane-doe/Portrait.JpG'' = ''.JpG'' \<and> eligible ''jane-doe/Portrait.JpG''
   \<and> \<not> eligible ''jane-doe/''"
  using eligible_iff_image_extension
    [of "''jane-doe/''" "''jane-doe/''" "''Portrait''" "''JpG''"]
  by (simp add: lower_JPG endswith_slash_def)

subsection \<open>The identifier source\<close>

lemma file_identifiers_of_lines:
  "file_lines e a = Inr lines \<Longrightarrow>
   file_identifiers e a = Inr [strip line. line \<leftarrow> lines, strip line \<noteq> []]"
  by (auto simp: file_lines_def file_identifiers_def split: option.splits sum.splits)

lemma file_identifiers_error:
  "file_lines e a = Inl err \<Longrightarrow> file_identifiers e a = Inl err"
  by (auto simp: file_lines_def file_identifiers_def split: option.splits sum.splits)

lemma set_stripped_nonempty:
  "set [strip x. x \<leftarrow> xs, strip x \<noteq> []] = {s \<in> strip ` set xs. s \<noteq> []}"
  by (induction xs) auto

lemma build_identifier_list_of_lines:
  assumes "file_lines e a = Inr lines"
  shows "build_identifier_list e a =
     (if spec_identifier_set (identifiers a) lines = {}
      then Inl (SystemExit ''No identifiers provided. Use --id or --from-file.'')
      else Inr (spec_identifier_list (identifiers a) lines))"
proof -
  define ids where "ids = [strip line. line \<leftarrow> lines, strip line \<noteq> []] @
       (if identifiers a \<noteq> [] then [strip i. i \<leftarrow> identifiers a, strip i \<noteq> []] else [])"
  have s: "set ids = spec_identifier_set (identifiers a) lines"
    unfolding ids_def spec_identifier_set_def
    by (simp only: set_append set_stripped_nonempty split: if_splits) auto
  have d: "sort (remdups ids) = spec_identifier_list (identifiers a) lines"
    unfolding spec_identifier_list_def s[symmetric]
    by (simp add: sorted_list_of_set_sort_remdups)
  have n: "sort (remdups ids) = [] \<longleftrightarrow> spec_identifier_set (identifiers a) lines = {}"
    using s by (metis set_empty set_remdups set_sort)
  have "build_identifier_list e a =
     (if sort (remdups ids) = []
      then Inl (SystemExit ''No identifiers provided. Use --id or --from-file.'')
      else Inr (sort (remdups ids)))"
    unfolding build_identifier_list_def file_identifiers_of_lines[OF assms] ids_def
    by (simp add: Let_def)
  moreover have "spec_identifier_list (identifiers a) lines = []
      \<longleftrightarrow> spec_identifier_set (identifiers a) lines = {}"
    using n d by simp
  ultimately show ?thesis by (simp only: d)
qed

lemma spec_identifier_set_cong:
  "set ids' \<union> set lines' = set ids \<union> set lines \<Longrightarrow>
   spec_identifier_set ids' lines' = spec_identifier_set ids lines"
  by (simp add: spec_identifier_set_def)

lemma example_args_identifiers: "identifiers (example_args ids file) = ids"
  by (simp add: example_args_def)

lemma example_file_lines:
  "file_lines (example_env (Inl DecodeError)) (example_args ids (Some (Path ''ids.txt'')))
     = Inr [''john-smith'', ''  jane-doe '', '''']"
  by code_simp

lemma example_file_lines_none:
  "file_lines (example_env (Inl DecodeError)) (example_args ids None) = Inr []"
  by (simp add: file_lines_def example_args_def)

lemma example_spec_list:
  "spec_identifier_list ['' zoe'', ''jane-doe''] [''john-smith'', ''  jane-doe '', '''']
     = [''jane-doe'', ''john-smith'', ''zoe'']"
  by code_simp

lemma example_spec_set:
  "spec_identifier_set ['' zoe'', ''jane-doe''] [''john-smith'', ''  jane-doe '', ''''] \<noteq> {}"
  by code_simp

lemma example_spec_set_empty: "spec_identifier_set ['' '', ''''] [] = {}"
  by code_simp

text \<open>
  Claim C3.  Where the file given by \<open>--from-file\<close> is read (or the option is
  absent, which gives no lines), the identifier source returns the entries of both
  sources, stripped, without the empty ones, without duplicates and in ascending
  lexicographic order, when there is at least one; when there is none it raises
  \<open>SystemExit\<close> and returns no list.  Any other command line and file with the same set of
  entries, in whatever order and from whichever of the two sources, gives the same
  result.
\<close>

theorem build_identifier_list_sorted_union:
  assumes "file_lines e a = Inr lines"
  shows "build_identifier_list e a =
           (if spec_identifier_set (identifiers a) lines = {}
            then Inl (SystemExit ''No identifiers provided. Use --id or --from-file.'')
            else Inr (spec_identifier_list (identifiers a) lines))
       \<and> (\<forall>e' a' lines'. file_lines e' a' = Inr lines'
              \<and> set (identifiers a') \<union> set lines' = set (identifiers a) \<union> set lines
            \<longrightarrow> build_identifier_list e' a' = build_identifier_list e a)"
proof (intro conjI allI impI)
  show "build_identifier_list e a =
           (if spec_identifier_set (identifiers a) lines = {}
            then Inl (SystemExit ''No identifiers provided. Use --id or --from-file.'')
            else Inr (spec_identifier_list (identifiers a) lines))"
    by (rule build_identifier_list_of_lines[OF assms])
next
  fix e' a' lines'
  assume h: "file_lines e' a' = Inr lines'
              \<and> set (identifiers a') \<union> set lines' = set (identifiers a) \<union> set lines"
  then have c: "spec_identifier_set (identifiers a') lines' = spec_identifier_set (identifiers a) lines"
    by (intro spec_identifier_set_cong) simp
  have l: "spec_identifier_list (identifiers a') lines' = spec_identifier_list (identifiers a) lines"
    by (simp add: spec_identifier_list_def c)
  show "build_identifier_list e' a' = build_identifier_list e a"
    using h by (simp add: build_identifier_list_of_lines[OF assms]
        build_identifier_list_of_lines[of e' a' lines'] c l)
qed

theorem build_identifier_list_sorted_union_witness:
  "file_lines (example_env (Inl DecodeError))
       (example_args ['' zoe'', ''jane-doe''] (Some (Path ''ids.txt'')))
     = Inr [''john-smith'', ''  jane-doe '', '''']
   \<and> build_identifier_list (example_env (Inl DecodeError))
       (example_args ['' zoe'', ''jane-doe''] (Some (Path ''ids.txt'')))
     = Inr [''jane-doe'', ''john-smith'', ''zoe'']"
  using build_identifier_list_sorted_union
    [OF example_file_lines [of "['' zoe'', ''jane-doe'']"]]
  by (simp add: example_file_lines example_spec_list example_spec_set
      example_args_identifiers)

text \<open>
  Claim C6.  When the two sources together hold no entry that is non-empty after
  stripping, \<open>main\<close> ends with \<open>SystemExit\<close> carrying a message, so the process
  exits with status 1, and its trace of effects is empty: the storage client has not
  been constructed and no listing or download has been made.
\<close>

theorem main_without_identifiers:
  assumes "file_lines e a = Inr lines"
    and "spec_identifier_set (identifiers a) lines = {}"
  shows "main e a = (Inl (SystemExit ''No identifiers provided. Use --id or --from-file.''), [])
       \<and> exit_status (fst (main e a)) \<noteq> 0
       \<and> ClientCreated \<notin> set (snd (main e a))"
  using assms by (simp add: main_def build_identifier_list_of_lines exit_status_def)

theorem main_without_identifiers_witness:
  "file_lines (example_env (Inl DecodeError)) (example_args ['' '', ''''] None) = Inr []
   \<and> spec_identifier_set ['' '', ''''] [] = {}
   \<and> main (example_env (Inl DecodeError)) (example_args ['' '', ''''] None)
       = (Inl (SystemExit ''No identifiers provided. Use --id or --from-file.''), [])
   \<and> exit_status (fst (main (example_env (Inl DecodeError)) (example_args ['' '', ''''] None))) = 1"
  using main_without_identifiers
    [OF example_file_lines_none [of "['' '', '''']"]]
  by (simp add: example_file_lines_none example_spec_set_empty example_args_identifiers
      exit_status_def)

subsection \<open>The image pipeline and the orchestrator\<close>

lemma pil_load_cases:
  obtains (fails) err where "pil_load e im = Inl err"
  | (loads) "pil_load e im = Inr (im\<lparr>unloaded := None\<rparr>)"
proof (cases "unloaded im")
  case None
  then have "pil_load e im = Inr (im\<lparr>unloaded := None\<rparr>)" by (simp add: pil_load_def)
  then show ?thesis by (rule loads)
next
  case (Some data)
  show ?thesis
  proof (cases "image_load e data")
    case None
    with Some have "pil_load e im = Inr (im\<lparr>unloaded := None\<rparr>)" by (simp add: pil_load_def)
    then show ?thesis by (rule loads)
  next
    case (Some err)
    with \<open>unloaded im = Some data\<close> have "pil_load e im = Inl err" by (simp add: pil_load_def)
    then show ?thesis by (rule fails)
  qed
qed

lemma pil_load_loaded: "unloaded im = None \<Longrightarrow> pil_load e im = Inr im"
  by (simp add: pil_load_def)

lemma save_thumbnail_load_fails:
  "pil_load e im = Inl err \<Longrightarrow>
   save_thumbnail e im dest sz tr = (Inl err, tr @ [Mkdir (parent dest)])"
  by (simp add: save_thumbnail_def Let_def)

lemma save_thumbnail_writes:
  "pil_load e im = Inr loaded \<Longrightarrow> mode (picture loaded) \<in> JPEG_RAWMODE \<Longrightarrow>
   save_thumbnail e im dest sz tr =
     (Inr loaded, tr @ [Mkdir (parent dest),
        WriteJpeg dest
          ((picture loaded)
             \<lparr>width := fst (thumbnail_size e (width (picture loaded), height (picture loaded)) sz),
              height := snd (thumbnail_size e (width (picture loaded), height (picture loaded)) sz)\<rparr>)])"
  by (simp add: save_thumbnail_def Let_def)

lemma save_thumbnail_raises:
  "pil_load e im = Inr loaded \<Longrightarrow> mode (picture loaded) \<notin> JPEG_RAWMODE \<Longrightarrow>
   save_thumbnail e im dest sz tr =
     (Inl (CannotWriteMode (mode (picture loaded))), tr @ [Mkdir (parent dest)])"
  by (simp add: save_thumbnail_def Let_def)

lemma save_thumbnail_cases:
  obtains (load_fails) err where "pil_load e im = Inl err"
  | (writes) "pil_load e im = Inr (im\<lparr>unloaded := None\<rparr>)" "mode (picture im) \<in> JPEG_RAWMODE"
  | (raises) "pil_load e im = Inr (im\<lparr>unloaded := None\<rparr>)" "mode (picture im) \<notin> JPEG_RAWMODE"
  by (cases rule: pil_load_cases[of e im]; cases "mode (picture im) \<in> JPEG_RAWMODE") auto

lemma save_thumbnail_warnings:
  "Warning m \<in> set (snd (save_thumbnail e im dest sz tr)) \<longleftrightarrow> Warning m \<in> set tr"
proof (cases rule: save_thumbnail_cases[of e im])
  case (load_fails err)
  then show ?thesis by (simp add: save_thumbnail_load_fails)
next
  case writes
  then show ?thesis by (simp add: save_thumbnail_writes[OF writes(1)])
next
  case raises
  then show ?thesis by (simp add: save_thumbnail_raises[OF raises(1)])
qed


lemma save_thumbnails_warnings:
  "Warning m \<in> set (snd (save_thumbnails e im d specs tr)) \<longleftrightarrow> Warning m \<in> set tr"
proof (induction specs arbitrary: tr im)
  case Nil
  show ?case by simp
next
  case (Cons spec specs)
  obtain r tr' where s: "save_thumbnail e im (destination spec d) (spec_size spec) tr = (r, tr')"
    by (cases "save_thumbnail e im (destination spec d) (spec_size spec) tr") auto
  have w: "Warning m \<in> set tr' \<longleftrightarrow> Warning m \<in> set tr"
    using save_thumbnail_warnings[of m e im "destination spec d" "spec_size spec" tr] s by simp
  show ?case
  proof (cases r)
    case (Inl err)
    then show ?thesis using s w by simp
  next
    case (Inr im')
    then show ?thesis
      using s w Cons.IH[of im' "tr' @ [Info (Saved (destination spec d))]"] by simp
  qed
qed


lemma choose_primary_blob_Some:
  "blobs \<noteq> [] \<Longrightarrow> \<exists>b. choose_primary_blob blobs = Some b"
  by (cases blobs) (simp_all add: choose_primary_blob_def)

text \<open>The four ways through \<open>process_identifier\<close>: the listing fails, no listed
  object is eligible, the download or the decoding fails, or the thumbnails are saved.\<close>

lemma process_identifier_listing_fails:
  "list_blobs e bk (rstrip_slash ident @ ''/'') = Inl err \<Longrightarrow>
   process_identifier e bk ident out tr = (Inl err, tr @ [ListBlobs bk (rstrip_slash ident @ ''/'')])"
  by (simp add: process_identifier_def Let_def)

lemma process_identifier_no_candidate:
  "list_blobs e bk (rstrip_slash ident @ ''/'') = Inr listed \<Longrightarrow>
   filter (\<lambda>b. eligible (blob_name b)) listed = [] \<Longrightarrow>
   process_identifier e bk ident out tr =
     (Inr (), tr @ [ListBlobs bk (rstrip_slash ident @ ''/''),
                    Warning (NoPortraitImagesFound ident)])"
  by (simp add: process_identifier_def Let_def)

lemma process_identifier_download_fails:
  "list_blobs e bk (rstrip_slash ident @ ''/'') = Inr listed \<Longrightarrow>
   choose_primary_blob (filter (\<lambda>b. eligible (blob_name b)) listed) = Some b \<Longrightarrow>
   download_image e b = Inl err \<Longrightarrow>
   process_identifier e bk ident out tr =
     (Inl err, tr @ [ListBlobs bk (rstrip_slash ident @ ''/''),
                     Info (Downloading (blob_name b) (blob_size b) ident), Download b])"
  by (auto simp: process_identifier_def Let_def choose_primary_blob_def)

lemma process_identifier_saves:
  "list_blobs e bk (rstrip_slash ident @ ''/'') = Inr listed \<Longrightarrow>
   choose_primary_blob (filter (\<lambda>b. eligible (blob_name b)) listed) = Some b \<Longrightarrow>
   download_image e b = Inr img \<Longrightarrow>
   process_identifier e bk ident out tr =
     save_thumbnails e img (Slash out ident) THUMBNAILS
       (tr @ [ListBlobs bk (rstrip_slash ident @ ''/''),
              Info (Downloading (blob_name b) (blob_size b) ident), Download b])"
  by (auto simp: process_identifier_def Let_def choose_primary_blob_def)

lemma process_identifier_cases:
  obtains (listing_fails) err where "list_blobs e bk (rstrip_slash ident @ ''/'') = Inl err"
  | (no_candidate) listed where "list_blobs e bk (rstrip_slash ident @ ''/'') = Inr listed"
      "filter (\<lambda>b. eligible (blob_name b)) listed = []"
  | (download_fails) listed b err where "list_blobs e bk (rstrip_slash ident @ ''/'') = Inr listed"
      "choose_primary_blob (filter (\<lambda>b. eligible (blob_name b)) listed) = Some b"
      "download_image e b = Inl err"
  | (saves) listed b img where "list_blobs e bk (rstrip_slash ident @ ''/'') = Inr listed"
      "choose_primary_blob (filter (\<lambda>b. eligible (blob_name b)) listed) = Some b"
      "download_image e b = Inr img"
proof (cases "list_blobs e bk (rstrip_slash ident @ ''/'')")
  case (Inl err)
  then show ?thesis by (rule listing_fails)
next
  case (Inr listed)
  show ?thesis
  proof (cases "filter (\<lambda>b. eligible (blob_name b)) listed = []")
    case True
    with Inr show ?thesis by (rule no_candidate)
  next
    case False
    then obtain b where b: "choose_primary_blob (filter (\<lambda>b. eligible (blob_name b)) listed) = Some b"
      using choose_primary_blob_Some by blast
    show ?thesis
    proof (cases "download_image e b")
      case (Inl err)
      with Inr b show ?thesis by (rule download_fails)
    next
      case (Inr img)
      with \<open>list_blobs e bk (rstrip_slash ident @ ''/'') = Inr listed\<close> b show ?thesis by (rule saves)
    qed
  qed
qed


lemma process_identifier_could_not_determine:
  "Warning (CouldNotDetermine x) \<in> set (snd (process_identifier e bk ident out tr))
     \<longleftrightarrow> Warning (CouldNotDetermine x) \<in> set tr"
proof (cases rule: process_identifier_cases[of e bk ident])
  case (listing_fails err)
  then show ?thesis by (simp add: process_identifier_listing_fails)
next
  case (no_candidate listed)
  then show ?thesis by (simp add: process_identifier_no_candidate)
next
  case (download_fails listed b err)
  then show ?thesis by (simp add: process_identifier_download_fails)
next
  case (saves listed b img)
  then show ?thesis
    by (simp add: process_identifier_saves[OF saves] save_thumbnails_warnings)
qed

lemma process_all_append:
  "process_all e bk pre out tr = (Inr (), tr1) \<Longrightarrow>
   process_all e bk (pre @ rest) out tr = process_all e bk rest out tr1"
proof (induction pre arbitrary: tr)
  case Nil
  then show ?case by simp
next
  case (Cons x pre)
  obtain r tr' where p: "process_identifier e bk x out tr = (r, tr')"
    by (cases "process_identifier e bk x out tr") auto
  show ?case
  proof (cases r)
    case (Inl err)
    with p Cons.prems show ?thesis by simp
  next
    case (Inr u)
    with p Cons.prems have "process_all e bk pre out tr' = (Inr (), tr1)" by simp
    from Cons.IH[OF this] show ?thesis using p Inr by simp
  qed
qed


subsection \<open>The image pipeline: colour modes, decoding and the JPEG writer\<close>

lemma pil_load_Inr:
  "pil_load e im = Inr loaded \<Longrightarrow> picture loaded = picture im \<and> unloaded loaded = None"
  by (auto simp: pil_load_def split: option.splits)

lemma download_image_modes:
  "download_image e b = Inr im \<Longrightarrow> mode (picture im) = ''RGB'' \<or> mode (picture im) = ''RGBA''"
  by (auto simp: download_image_def Let_def split: sum.splits if_splits)

lemma download_image_download_fails:
  "download_as_bytes e b = Inl err \<Longrightarrow> download_image e b = Inl err"
  by (simp add: download_image_def)

lemma download_image_open_fails:
  "download_as_bytes e b = Inr data \<Longrightarrow> image_open e data = Inl err \<Longrightarrow>
   download_image e b = Inl err"
  by (simp add: download_image_def)

lemma download_image_converts:
  "download_as_bytes e b = Inr data \<Longrightarrow> image_open e data = Inr hdr \<Longrightarrow>
   mode hdr \<notin> {''RGB'', ''RGBA''} \<Longrightarrow> image_load e data = None \<Longrightarrow>
   download_image e b = Inr \<lparr>picture = hdr\<lparr>mode := ''RGB''\<rparr>, unloaded = None\<rparr>"
  by (simp add: download_image_def pil_load_def)

lemma download_image_convert_raises:
  "download_as_bytes e b = Inr data \<Longrightarrow> image_open e data = Inr hdr \<Longrightarrow>
   mode hdr \<notin> {''RGB'', ''RGBA''} \<Longrightarrow> image_load e data = Some err \<Longrightarrow>
   download_image e b = Inl err"
  by (simp add: download_image_def pil_load_def)

lemma download_image_lazy:
  "download_as_bytes e b = Inr data \<Longrightarrow> image_open e data = Inr hdr \<Longrightarrow>
   mode hdr \<in> {''RGB'', ''RGBA''} \<Longrightarrow>
   download_image e b = Inr \<lparr>picture = hdr, unloaded = Some data\<rparr>"
  by (auto simp: download_image_def)

lemma RGB_is_written: "''RGB'' \<in> JPEG_RAWMODE"
  by (simp add: JPEG_RAWMODE_def)

lemma RGBA_is_not_written: "''RGBA'' \<notin> JPEG_RAWMODE"
  by (simp add: JPEG_RAWMODE_def)

lemma save_thumbnails_RGB:
  assumes m: "mode (picture im) = ''RGB''" and l: "pil_load e im = Inr loaded"
  shows "save_thumbnails e im d THUMBNAILS tr =
     (Inr (), tr @
       [Mkdir d,
        WriteJpeg (Slash d ''cover.jpg'')
          \<lparr>width = fst (thumbnail_size e (width (picture im), height (picture im)) (512, 512)),
           height = snd (thumbnail_size e (width (picture im), height (picture im)) (512, 512)),
           mode = ''RGB''\<rparr>,
        Info (Saved (Slash d ''cover.jpg'')),
        Mkdir d,
        WriteJpeg (Slash d ''profile.jpg'')
          \<lparr>width = fst (thumbnail_size e (width (picture im), height (picture im)) (256, 256)),
           height = snd (thumbnail_size e (width (picture im), height (picture im)) (256, 256)),
           mode = ''RGB''\<rparr>,
        Info (Saved (Slash d ''profile.jpg''))])"
proof -
  have p: "picture loaded = picture im" and u: "unloaded loaded = None"
    using pil_load_Inr[OF l] by simp_all
  have l2: "pil_load e loaded = Inr loaded" by (rule pil_load_loaded[OF u])
  have w: "mode (picture loaded) \<in> JPEG_RAWMODE" by (simp add: p m RGB_is_written)
  have r: "(picture im)\<lparr>width := a, height := c\<rparr> = \<lparr>width = a, height = c, mode = ''RGB''\<rparr>"
    for a c using m by (cases "picture im") simp
  show ?thesis
    by (simp add: THUMBNAILS_def destination_def save_thumbnail_writes[OF l w]
        save_thumbnail_writes[OF l2 w] p r)
qed

lemma save_thumbnails_RGBA:
  assumes m: "mode (picture im) = ''RGBA''" and l: "pil_load e im = Inr loaded"
  shows "save_thumbnails e im d THUMBNAILS tr = (Inl (CannotWriteMode ''RGBA''), tr @ [Mkdir d])"
proof -
  have p: "picture loaded = picture im" using pil_load_Inr[OF l] by simp
  have w: "mode (picture loaded) \<notin> JPEG_RAWMODE" by (simp add: p m RGBA_is_not_written)
  show ?thesis
    by (simp add: THUMBNAILS_def destination_def save_thumbnail_raises[OF l w] p m)
qed

lemma save_thumbnails_load_fails:
  "pil_load e im = Inl err \<Longrightarrow>
   save_thumbnails e im d THUMBNAILS tr = (Inl err, tr @ [Mkdir d])"
  by (simp add: THUMBNAILS_def destination_def save_thumbnail_load_fails)

text \<open>An image whose mode after \<open>download_image\<close> is RGB and whose pixel data decodes:
  two thumbnails are written, \<open>cover.jpg\<close> and \<open>profile.jpg\<close> in the directory of the
  identifier, of the sizes that \<open>Image.thumbnail\<close> gives for the boxes 512 by 512 and
  256 by 256.\<close>

lemma process_identifier_writes_two:
  assumes "list_blobs e bk (rstrip_slash ident @ ''/'') = Inr listed"
    and "choose_primary_blob (filter (\<lambda>b. eligible (blob_name b)) listed) = Some b"
    and "download_image e b = Inr im"
    and "mode (picture im) = ''RGB''"
    and "pil_load e im = Inr loaded"
  shows "process_identifier e bk ident out tr =
     (Inr (), tr @
       [ListBlobs bk (rstrip_slash ident @ ''/''),
        Info (Downloading (blob_name b) (blob_size b) ident), Download b,
        Mkdir (Slash out ident),
        WriteJpeg (Slash (Slash out ident) ''cover.jpg'')
          \<lparr>width = fst (thumbnail_size e (width (picture im), height (picture im)) (512, 512)),
           height = snd (thumbnail_size e (width (picture im), height (picture im)) (512, 512)),
           mode = ''RGB''\<rparr>,
        Info (Saved (Slash (Slash out ident) ''cover.jpg'')),
        Mkdir (Slash out ident),
        WriteJpeg (Slash (Slash out ident) ''profile.jpg'')
          \<lparr>width = fst (thumbnail_size e (width (picture im), height (picture im)) (256, 256)),
           height = snd (thumbnail_size e (width (picture im), height (picture im)) (256, 256)),
           mode = ''RGB''\<rparr>,
        Info (Saved (Slash (Slash out ident) ''profile.jpg''))])"
  by (simp add: process_identifier_saves[OF assms(1-3)] save_thumbnails_RGB[OF assms(4,5)])

text \<open>An image of mode RGBA is not converted, and the first save raises: the directory
  of the identifier is made and nothing is written into it.\<close>

lemma process_identifier_RGBA:
  assumes "list_blobs e bk (rstrip_slash ident @ ''/'') = Inr listed"
    and "choose_primary_blob (filter (\<lambda>b. eligible (blob_name b)) listed) = Some b"
    and "download_image e b = Inr im"
    and "mode (picture im) = ''RGBA''"
    and "pil_load e im = Inr loaded"
  shows "process_identifier e bk ident out tr =
     (Inl (CannotWriteMode ''RGBA''), tr @
       [ListBlobs bk (rstrip_slash ident @ ''/''),
        Info (Downloading (blob_name b) (blob_size b) ident), Download b,
        Mkdir (Slash out ident)])"
  by (simp add: process_identifier_saves[OF assms(1-3)] save_thumbnails_RGBA[OF assms(4,5)])

text \<open>An image of mode RGB or RGBA whose pixel data does not decode: \<open>download_image\<close>
  returns it, and the error is raised by \<open>image.copy()\<close> in the first save, after the
  directory of the identifier is made.\<close>

lemma process_identifier_load_fails:
  assumes "list_blobs e bk (rstrip_slash ident @ ''/'') = Inr listed"
    and "choose_primary_blob (filter (\<lambda>b. eligible (blob_name b)) listed) = Some b"
    and "download_image e b = Inr im"
    and "pil_load e im = Inl err"
  shows "process_identifier e bk ident out tr =
     (Inl err, tr @
       [ListBlobs bk (rstrip_slash ident @ ''/''),
        Info (Downloading (blob_name b) (blob_size b) ident), Download b,
        Mkdir (Slash out ident)])"
  by (simp add: process_identifier_saves[OF assms(1-3)] save_thumbnails_load_fails[OF assms(4)])

subsection \<open>The example environment, evaluated\<close>

lemma example_candidates:
  "filter (\<lambda>b. eligible (blob_name b)) example_listing =
     [\<lparr>blob_name = ''jane-doe/small.png'', blob_size = Some 2048\<rparr>,
      \<lparr>blob_name = ''jane-doe/Portrait.PNG'', blob_size = Some 70000\<rparr>]"
  by code_simp

lemma example_chosen:
  "choose_primary_blob (filter (\<lambda>b. eligible (blob_name b)) example_listing) =
     Some \<lparr>blob_name = ''jane-doe/Portrait.PNG'', blob_size = Some 70000\<rparr>"
  by (simp add: example_candidates choose_primary_blob_def size_key_def)

lemma rstrip_slash_jane: "rstrip_slash ''jane-doe'' = ''jane-doe''"
  by code_simp


lemma example_list_jane:
  "list_blobs (example_env d) bk (rstrip_slash ''jane-doe'' @ ''/'') = Inr example_listing"
  by (simp add: rstrip_slash_jane example_env_def)


lemma example_download_rgba:
  "download_image (example_env (Inr \<lparr>width = w, height = h, mode = ''RGBA''\<rparr>)) b =
     Inr \<lparr>picture = \<lparr>width = w, height = h, mode = ''RGBA''\<rparr>, unloaded = Some ''bytes''\<rparr>"
  by (simp add: download_image_def example_env_def)

lemma example_load:
  "pil_load (example_env d) \<lparr>picture = p, unloaded = Some data\<rparr> =
     Inr \<lparr>picture = p, unloaded = None\<rparr>"
  by (simp add: pil_load_def example_env_def)

lemma example_prefix_jane:
  "list_blobs (example_env d) bk ''jane-doe/'' = Inr example_listing"
  by (simp add: example_env_def)

lemma example_truncated_prefix_jane:
  "list_blobs (example_env_truncated hdr) bk ''jane-doe/'' = Inr example_listing"
  by (simp add: example_env_truncated_def example_env_def)

lemma example_truncated_bytes:
  "download_as_bytes (example_env_truncated hdr) b = Inr ''bytes''"
  by (simp add: example_env_truncated_def example_env_def)

lemma example_truncated_open:
  "image_open (example_env_truncated hdr) data = Inr hdr"
  by (simp add: example_env_truncated_def example_env_def)

lemma example_truncated_load:
  "image_load (example_env_truncated hdr) data = Some DecodeError"
  by (simp add: example_env_truncated_def)

lemma example_truncated_client: "client_failure (example_env_truncated hdr) = None"
  by (simp add: example_env_truncated_def example_env_def)

lemma example_bytes: "download_as_bytes (example_env d) b = Inr ''bytes''"
  by (simp add: example_env_def)

lemma example_open: "image_open (example_env d) data = d"
  by (simp add: example_env_def)

lemma example_decodes: "image_load (example_env d) data = None"
  by (simp add: example_env_def)


lemma example_ids_three:
  "build_identifier_list (example_env d)
      (example_args ['' zoe'', ''jane-doe''] (Some (Path ''ids.txt'')))
     = Inr [''jane-doe'', ''john-smith'', ''zoe'']"
  by code_simp

lemma example_args_fields:
  "bucket (example_args ids file) = ''afaculty''"
  "output_arg (example_args ids file) = Path ''portraits''"
  by (simp_all add: example_args_def)

lemma example_client: "client_failure (example_env d) = None"
  by (simp add: example_env_def)

lemma process_all_nil: "process_all e bk [] out tr = (Inr (), tr)"
  by simp

lemma example_truncated_ids:
  "build_identifier_list (example_env_truncated hdr)
      (example_args ['' zoe'', ''jane-doe''] (Some (Path ''ids.txt'')))
     = Inr [''jane-doe'', ''john-smith'', ''zoe'']"
proof -
  have "file_identifiers (example_env_truncated hdr) a = file_identifiers (example_env (Inr hdr)) a"
    for a
    by (simp add: file_identifiers_def example_env_truncated_def split: option.splits)
  then have "build_identifier_list (example_env_truncated hdr) a
      = build_identifier_list (example_env (Inr hdr)) a" for a
    by (simp add: build_identifier_list_def)
  then show ?thesis by (simp add: example_ids_three)
qed

subsection \<open>The orchestrator: skipped identifiers and failures\<close>

text \<open>
  Claim C9.  For every non-empty list of blobs the selector returns a blob, never
  \<open>None\<close>.  So \<open>process_identifier\<close>, which calls the selector on a non-empty list
  only, never records the warning "Could not determine a portrait": that warning is in
  the trace after the call only if it was there before.
\<close>

theorem could_not_determine_unreachable:
  "(blobs \<noteq> [] \<longrightarrow> choose_primary_blob blobs \<noteq> None)
   \<and> (Warning (CouldNotDetermine x) \<in> set (snd (process_identifier e bk ident out tr))
        \<longrightarrow> Warning (CouldNotDetermine x) \<in> set tr)"
proof (intro conjI impI)
  assume "blobs \<noteq> []"
  then show "choose_primary_blob blobs \<noteq> None"
    using choose_primary_blob_Some[of blobs] by auto
next
  assume "Warning (CouldNotDetermine x) \<in> set (snd (process_identifier e bk ident out tr))"
  then show "Warning (CouldNotDetermine x) \<in> set tr"
    by (simp add: process_identifier_could_not_determine)
qed

theorem could_not_determine_unreachable_witness:
  "filter (\<lambda>b. eligible (blob_name b)) example_listing \<noteq> []
   \<and> choose_primary_blob (filter (\<lambda>b. eligible (blob_name b)) example_listing) \<noteq> None
   \<and> Warning (CouldNotDetermine ''jane-doe'')
       \<notin> set (snd (process_identifier
                     (example_env (Inr \<lparr>width = 1024, height = 768, mode = ''RGB''\<rparr>))
                     ''afaculty'' ''jane-doe'' (Path ''portraits'') []))"
  using could_not_determine_unreachable
    [of "filter (\<lambda>b. eligible (blob_name b)) example_listing" "''jane-doe''"
        "example_env (Inr \<lparr>width = 1024, height = 768, mode = ''RGB''\<rparr>)"
        "''afaculty''" "''jane-doe''" "Path ''portraits''" "[]"]
  by (auto simp: example_candidates)



text \<open>
  Claim C8.  The identifiers before position \<open>i\<close> (the list \<open>pre\<close>) have been
  processed, and for the identifier \<open>x\<close> at that position the download fails, or
  \<open>Image.open\<close> fails on the bytes, or the pixel data does not decode.  The last of
  these is raised by \<open>convert\<close> inside \<open>download_image\<close> for an image that is
  converted, and for an image of mode RGB or RGBA by \<open>image.copy()\<close> in the first save,
  after the directory of the identifier is made (\<open>late\<close>).  In each case no exception
  handler is on the way: the loop ends with that error, its trace ending with the
  download for \<open>x\<close> (and the directory, when late) and holding no written file for
  \<open>x\<close>; the result is that of the run on \<open>pre @ [x]\<close> alone, whatever identifiers
  \<open>post\<close> follow: nothing is listed, downloaded or written for them.  \<open>main\<close> ends
  with the same error and trace.
\<close>

theorem download_failure_aborts_batch:
  assumes "process_all e bk pre out tr = (Inr (), tr_pre)"
    and "list_blobs e bk (rstrip_slash x @ ''/'') = Inr listed"
    and "choose_primary_blob (filter (\<lambda>b. eligible (blob_name b)) listed) = Some b"
    and "download_as_bytes e b = Inl err \<and> \<not> late
       \<or> download_as_bytes e b = Inr data \<and> image_open e data = Inl err \<and> \<not> late
       \<or> download_as_bytes e b = Inr data \<and> image_open e data = Inr hdr
           \<and> image_load e data = Some err \<and> (late \<longleftrightarrow> mode hdr \<in> {''RGB'', ''RGBA''})"
    and "tr_end = tr_pre @ [ListBlobs bk (rstrip_slash x @ ''/''),
                            Info (Downloading (blob_name b) (blob_size b) x), Download b]
                         @ (if late then [Mkdir (Slash out x)] else [])"
  shows "process_all e bk (pre @ x # post) out tr = (Inl err, tr_end)
       \<and> process_all e bk (pre @ x # post) out tr = process_all e bk (pre @ [x]) out tr
       \<and> (build_identifier_list e a = Inr (pre @ x # post) \<and> client_failure e = None
            \<and> bk = bucket a \<and> out = output_arg a \<and> tr = [ClientCreated]
          \<longrightarrow> main e a = (Inl err, tr_end))"
proof -
  consider (download) "download_as_bytes e b = Inl err" "\<not> late"
    | (identify) "download_as_bytes e b = Inr data" "image_open e data = Inl err" "\<not> late"
    | (convert) "download_as_bytes e b = Inr data" "image_open e data = Inr hdr"
        "image_load e data = Some err" "mode hdr \<notin> {''RGB'', ''RGBA''}" "\<not> late"
    | (copy) "download_as_bytes e b = Inr data" "image_open e data = Inr hdr"
        "image_load e data = Some err" "mode hdr \<in> {''RGB'', ''RGBA''}" "late"
    using assms(4) by blast
  then have p: "process_identifier e bk x out tr_pre = (Inl err, tr_end)"
  proof cases
    case download
    then have "download_image e b = Inl err" by (simp add: download_image_download_fails)
    from process_identifier_download_fails[OF assms(2,3) this] show ?thesis
      using download(2) assms(5) by simp
  next
    case identify
    then have "download_image e b = Inl err" by (simp add: download_image_open_fails)
    from process_identifier_download_fails[OF assms(2,3) this] show ?thesis
      using identify(3) assms(5) by simp
  next
    case convert
    then have "download_image e b = Inl err" by (simp add: download_image_convert_raises)
    from process_identifier_download_fails[OF assms(2,3) this] show ?thesis
      using convert(5) assms(5) by simp
  next
    case copy
    have d: "download_image e b = Inr \<lparr>picture = hdr, unloaded = Some data\<rparr>"
      using copy by (intro download_image_lazy) simp_all
    have l: "pil_load e \<lparr>picture = hdr, unloaded = Some data\<rparr> = Inl err"
      using copy(3) by (simp add: pil_load_def)
    from process_identifier_load_fails[OF assms(2,3) d l] show ?thesis
      using copy(5) assms(5) by simp
  qed
  have all: "process_all e bk (pre @ x # post) out tr = (Inl err, tr_end)"
    by (simp add: process_all_append[OF assms(1)] p)
  have one: "process_all e bk (pre @ [x]) out tr = (Inl err, tr_end)"
    by (simp add: process_all_append[OF assms(1)] p)
  show ?thesis
  proof (intro conjI impI)
    show "process_all e bk (pre @ x # post) out tr = (Inl err, tr_end)"
      by (rule all)
    show "process_all e bk (pre @ x # post) out tr = process_all e bk (pre @ [x]) out tr"
      by (simp only: all one)
  next
    assume h: "build_identifier_list e a = Inr (pre @ x # post) \<and> client_failure e = None
            \<and> bk = bucket a \<and> out = output_arg a \<and> tr = [ClientCreated]"
    then have "process_all e (bucket a) (pre @ x # post) (output_arg a) [ClientCreated]
                 = (Inl err, tr_end)"
      using all by simp
    with h show "main e a = (Inl err, tr_end)"
      by (simp add: main_def)
  qed
qed

theorem download_failure_aborts_batch_witness:
  "main (example_env (Inl DecodeError))
       (example_args ['' zoe'', ''jane-doe''] (Some (Path ''ids.txt'')))
     = (Inl DecodeError,
        [ClientCreated, ListBlobs ''afaculty'' ''jane-doe/'',
         Info (Downloading ''jane-doe/Portrait.PNG'' (Some 70000) ''jane-doe''),
         Download \<lparr>blob_name = ''jane-doe/Portrait.PNG'', blob_size = Some 70000\<rparr>])
   \<and> main (example_env_truncated \<lparr>width = 1024, height = 768, mode = ''RGB''\<rparr>)
       (example_args ['' zoe'', ''jane-doe''] (Some (Path ''ids.txt'')))
     = (Inl DecodeError,
        [ClientCreated, ListBlobs ''afaculty'' ''jane-doe/'',
         Info (Downloading ''jane-doe/Portrait.PNG'' (Some 70000) ''jane-doe''),
         Download \<lparr>blob_name = ''jane-doe/Portrait.PNG'', blob_size = Some 70000\<rparr>,
         Mkdir (Slash (Path ''portraits'') ''jane-doe'')])"
proof -
  have early: "main (example_env (Inl DecodeError))
       (example_args ['' zoe'', ''jane-doe''] (Some (Path ''ids.txt'')))
     = (Inl DecodeError,
        [ClientCreated, ListBlobs ''afaculty'' ''jane-doe/'',
         Info (Downloading ''jane-doe/Portrait.PNG'' (Some 70000) ''jane-doe''),
         Download \<lparr>blob_name = ''jane-doe/Portrait.PNG'', blob_size = Some 70000\<rparr>])"
    using download_failure_aborts_batch
      [where e = "example_env (Inl DecodeError)" and bk = "''afaculty''" and pre = "[]"
         and out = "Path ''portraits''" and tr = "[ClientCreated]"
         and tr_pre = "[ClientCreated]" and x = "''jane-doe''" and listed = example_listing
         and b = "\<lparr>blob_name = ''jane-doe/Portrait.PNG'', blob_size = Some 70000\<rparr>"
         and err = DecodeError and late = False and data = "''bytes''"
         and hdr = "\<lparr>width = 1024, height = 768, mode = ''RGB''\<rparr>"
         and post = "[''john-smith'', ''zoe'']"
         and a = "example_args ['' zoe'', ''jane-doe''] (Some (Path ''ids.txt''))"
         and tr_end = "[ClientCreated, ListBlobs ''afaculty'' ''jane-doe/'',
           Info (Downloading ''jane-doe/Portrait.PNG'' (Some 70000) ''jane-doe''),
           Download \<lparr>blob_name = ''jane-doe/Portrait.PNG'', blob_size = Some 70000\<rparr>]"]
    by (simp add: example_prefix_jane example_chosen example_bytes example_open
        example_ids_three example_client example_args_fields rstrip_slash_jane)
  have late: "main (example_env_truncated \<lparr>width = 1024, height = 768, mode = ''RGB''\<rparr>)
       (example_args ['' zoe'', ''jane-doe''] (Some (Path ''ids.txt'')))
     = (Inl DecodeError,
        [ClientCreated, ListBlobs ''afaculty'' ''jane-doe/'',
         Info (Downloading ''jane-doe/Portrait.PNG'' (Some 70000) ''jane-doe''),
         Download \<lparr>blob_name = ''jane-doe/Portrait.PNG'', blob_size = Some 70000\<rparr>,
         Mkdir (Slash (Path ''portraits'') ''jane-doe'')])"
    using download_failure_aborts_batch
      [where e = "example_env_truncated \<lparr>width = 1024, height = 768, mode = ''RGB''\<rparr>"
         and bk = "''afaculty''" and pre = "[]"
         and out = "Path ''portraits''" and tr = "[ClientCreated]"
         and tr_pre = "[ClientCreated]" and x = "''jane-doe''" and listed = example_listing
         and b = "\<lparr>blob_name = ''jane-doe/Portrait.PNG'', blob_size = Some 70000\<rparr>"
         and err = DecodeError and late = True and data = "''bytes''"
         and hdr = "\<lparr>width = 1024, height = 768, mode = ''RGB''\<rparr>"
         and post = "[''john-smith'', ''zoe'']"
         and a = "example_args ['' zoe'', ''jane-doe''] (Some (Path ''ids.txt''))"
         and tr_end = "[ClientCreated, ListBlobs ''afaculty'' ''jane-doe/'',
           Info (Downloading ''jane-doe/Portrait.PNG'' (Some 70000) ''jane-doe''),
           Download \<lparr>blob_name = ''jane-doe/Portrait.PNG'', blob_size = Some 70000\<rparr>,
           Mkdir (Slash (Path ''portraits'') ''jane-doe'')]"]
    by (simp add: example_truncated_prefix_jane example_chosen example_truncated_bytes
        example_truncated_open example_truncated_load example_truncated_ids
        example_truncated_client example_args_fields rstrip_slash_jane)
  from early late show ?thesis by simp
qed

subsection \<open>The image pipeline: the thumbnails written\<close>

text \<open>
  Claim C1.  For an identifier whose image is downloaded and decoded, processing should
  write exactly the two files \<open>cover.jpg\<close> and \<open>profile.jpg\<close> in the directory of the
  identifier.  \<open>process_identifier_writes_two\<close> shows this for every image whose mode
  is RGB after \<open>download_image\<close>.  An image decoded in mode RGBA (a PNG with an alpha
  channel) is left in that mode, which the JPEG writer does not store: at the input below
  the listing, the download and the decoding succeed, the first save raises, and the
  trace holds no written file.
\<close>

theorem rgba_portrait_writes_no_thumbnail:
  "process_identifier (example_env (Inr \<lparr>width = 1024, height = 768, mode = ''RGBA''\<rparr>))
     ''afaculty'' ''jane-doe'' (Path ''portraits'') []
   = (Inl (CannotWriteMode ''RGBA''),
      [ListBlobs ''afaculty'' ''jane-doe/'',
       Info (Downloading ''jane-doe/Portrait.PNG'' (Some 70000) ''jane-doe''),
       Download \<lparr>blob_name = ''jane-doe/Portrait.PNG'', blob_size = Some 70000\<rparr>,
       Mkdir (Slash (Path ''portraits'') ''jane-doe'')])"
  using process_identifier_RGBA
    [OF example_list_jane example_chosen example_download_rgba _ example_load,
     of 1024 768 "''afaculty''" "Path ''portraits''" "[]"]
  by (simp add: rstrip_slash_jane)

text \<open>
  Claim C5.  An image that \<open>Image.open\<close> reports in a mode other than RGB and RGBA, and
  whose pixel data decodes, is converted: \<open>download_image\<close> returns it in mode RGB.  The
  JPEG writer stores that mode, so every save of the converted image succeeds and writes
  a JPEG of mode RGB, and \<open>process_identifier\<close> writes both thumbnails in that mode.
\<close>

theorem other_modes_are_converted_and_encoded:
  assumes "download_as_bytes e b = Inr data"
    and "image_open e data = Inr hdr"
    and "mode hdr \<notin> {''RGB'', ''RGBA''}"
    and "image_load e data = None"
  shows "download_image e b = Inr \<lparr>picture = hdr\<lparr>mode := ''RGB''\<rparr>, unloaded = None\<rparr>
       \<and> save_thumbnail e \<lparr>picture = hdr\<lparr>mode := ''RGB''\<rparr>, unloaded = None\<rparr> dest sz tr =
           (Inr \<lparr>picture = hdr\<lparr>mode := ''RGB''\<rparr>, unloaded = None\<rparr>,
            tr @ [Mkdir (parent dest),
                  WriteJpeg dest
                    \<lparr>width = fst (thumbnail_size e (width hdr, height hdr) sz),
                     height = snd (thumbnail_size e (width hdr, height hdr) sz),
                     mode = ''RGB''\<rparr>])
       \<and> (list_blobs e bk (rstrip_slash ident @ ''/'') = Inr listed
            \<and> choose_primary_blob (filter (\<lambda>b. eligible (blob_name b)) listed) = Some b
          \<longrightarrow> process_identifier e bk ident out tr =
               (Inr (), tr @
                 [ListBlobs bk (rstrip_slash ident @ ''/''),
                  Info (Downloading (blob_name b) (blob_size b) ident), Download b,
                  Mkdir (Slash out ident),
                  WriteJpeg (Slash (Slash out ident) ''cover.jpg'')
                    \<lparr>width = fst (thumbnail_size e (width hdr, height hdr) (512, 512)),
                     height = snd (thumbnail_size e (width hdr, height hdr) (512, 512)),
                     mode = ''RGB''\<rparr>,
                  Info (Saved (Slash (Slash out ident) ''cover.jpg'')),
                  Mkdir (Slash out ident),
                  WriteJpeg (Slash (Slash out ident) ''profile.jpg'')
                    \<lparr>width = fst (thumbnail_size e (width hdr, height hdr) (256, 256)),
                     height = snd (thumbnail_size e (width hdr, height hdr) (256, 256)),
                     mode = ''RGB''\<rparr>,
                  Info (Saved (Slash (Slash out ident) ''profile.jpg''))]))"
proof -
  define im where "im = \<lparr>picture = hdr\<lparr>mode := ''RGB''\<rparr>, unloaded = None\<rparr>"
  have d: "download_image e b = Inr im"
    unfolding im_def using assms by (rule download_image_converts)
  have l: "pil_load e im = Inr im" by (simp add: im_def pil_load_loaded)
  have m: "mode (picture im) = ''RGB''" by (simp add: im_def)
  have w: "mode (picture im) \<in> JPEG_RAWMODE" by (simp add: m RGB_is_written)
  have s: "save_thumbnail e im dest sz tr =
           (Inr im,
            tr @ [Mkdir (parent dest),
                  WriteJpeg dest
                    \<lparr>width = fst (thumbnail_size e (width hdr, height hdr) sz),
                     height = snd (thumbnail_size e (width hdr, height hdr) sz),
                     mode = ''RGB''\<rparr>])"
    using save_thumbnail_writes[OF l w, of dest sz tr] by (cases hdr) (simp add: im_def)
  have p: "process_identifier e bk ident out tr =
               (Inr (), tr @
                 [ListBlobs bk (rstrip_slash ident @ ''/''),
                  Info (Downloading (blob_name b) (blob_size b) ident), Download b,
                  Mkdir (Slash out ident),
                  WriteJpeg (Slash (Slash out ident) ''cover.jpg'')
                    \<lparr>width = fst (thumbnail_size e (width hdr, height hdr) (512, 512)),
                     height = snd (thumbnail_size e (width hdr, height hdr) (512, 512)),
                     mode = ''RGB''\<rparr>,
                  Info (Saved (Slash (Slash out ident) ''cover.jpg'')),
                  Mkdir (Slash out ident),
                  WriteJpeg (Slash (Slash out ident) ''profile.jpg'')
                    \<lparr>width = fst (thumbnail_size e (width hdr, height hdr) (256, 256)),
                     height = snd (thumbnail_size e (width hdr, height hdr) (256, 256)),
                     mode = ''RGB''\<rparr>,
                  Info (Saved (Slash (Slash out ident) ''profile.jpg''))])"
    if "list_blobs e bk (rstrip_slash ident @ ''/'') = Inr listed"
      and "choose_primary_blob (filter (\<lambda>b. eligible (blob_name b)) listed) = Some b"
    using process_identifier_writes_two[OF that d m l, of out tr] by (simp add: im_def)
  show ?thesis using d s p unfolding im_def by blast
qed

theorem other_modes_are_converted_and_encoded_witness:
  "mode \<lparr>width = 1024, height = 768, mode = ''P''\<rparr> \<notin> {''RGB'', ''RGBA''}
   \<and> download_image (example_env (Inr \<lparr>width = 1024, height = 768, mode = ''P''\<rparr>))
       \<lparr>blob_name = ''jane-doe/Portrait.PNG'', blob_size = Some 70000\<rparr>
     = Inr \<lparr>picture = \<lparr>width = 1024, height = 768, mode = ''RGB''\<rparr>, unloaded = None\<rparr>
   \<and> process_identifier (example_env (Inr \<lparr>width = 1024, height = 768, mode = ''P''\<rparr>))
       ''afaculty'' ''jane-doe'' (Path ''portraits'') []
     = (Inr (),
        [ListBlobs ''afaculty'' ''jane-doe/'',
         Info (Downloading ''jane-doe/Portrait.PNG'' (Some 70000) ''jane-doe''),
         Download \<lparr>blob_name = ''jane-doe/Portrait.PNG'', blob_size = Some 70000\<rparr>,
         Mkdir (Slash (Path ''portraits'') ''jane-doe''),
         WriteJpeg (Slash (Slash (Path ''portraits'') ''jane-doe'') ''cover.jpg'')
           \<lparr>width = 512, height = 384, mode = ''RGB''\<rparr>,
         Info (Saved (Slash (Slash (Path ''portraits'') ''jane-doe'') ''cover.jpg'')),
         Mkdir (Slash (Path ''portraits'') ''jane-doe''),
         WriteJpeg (Slash (Slash (Path ''portraits'') ''jane-doe'') ''profile.jpg'')
           \<lparr>width = 256, height = 192, mode = ''RGB''\<rparr>,
         Info (Saved (Slash (Slash (Path ''portraits'') ''jane-doe'') ''profile.jpg''))])"
proof -
  have s: "thumbnail_size (example_env d) (1024, 768) (512, 512) = (512, 384)"
    "thumbnail_size (example_env d) (1024, 768) (256, 256) = (256, 192)" for d
    by (simp_all add: example_env_def shrink_to_fit_def Let_def)
  show ?thesis
    using other_modes_are_converted_and_encoded
      [where e = "example_env (Inr \<lparr>width = 1024, height = 768, mode = ''P''\<rparr>)"
         and b = "\<lparr>blob_name = ''jane-doe/Portrait.PNG'', blob_size = Some 70000\<rparr>"
         and data = "''bytes''" and hdr = "\<lparr>width = 1024, height = 768, mode = ''P''\<rparr>"
         and bk = "''afaculty''" and ident = "''jane-doe''" and listed = example_listing
         and out = "Path ''portraits''" and tr = "[]"]
    by (simp add: example_bytes example_open example_decodes example_prefix_jane
        example_chosen rstrip_slash_jane s)
qed

end
